theory Spec2Isabelle
  imports Complex_Main "HOL-Library.Char_ord" "HOL-Library.List_Lexorder" "HOL-Library.Multiset"
begin

section \<open>JavaScript strings\<close>

text \<open>
  A JavaScript string is a sequence of UTF-16 code units. A code unit is modelled by its
  number, so that the white space characters beyond Latin-1 (which \<open>trim\<close> and the
  regular expression class \<open>\s\<close> recognise) are part of the model. A literal of the
  source is written \<open>js ''...''\<close>.
\<close>

type_synonym jsstring = "nat list"

definition js :: "string \<Rightarrow> jsstring" where
  "js s = map of_char s"

text \<open>
  ECMAScript WhiteSpace and LineTerminator: TAB, LF, VT, FF, CR, SPACE, NBSP, U+1680,
  U+2000..U+200A, U+2028, U+2029, U+202F, U+205F, U+3000 and U+FEFF.
\<close>

definition isWhiteSpace :: "nat \<Rightarrow> bool" where
  "isWhiteSpace c =
     (c = 9 \<or> c = 10 \<or> c = 11 \<or> c = 12 \<or> c = 13 \<or> c = 32 \<or> c = 160 \<or> c = 5760 \<or>
      (8192 \<le> c \<and> c \<le> 8202) \<or> c = 8232 \<or> c = 8233 \<or> c = 8239 \<or> c = 8287 \<or>
      c = 12288 \<or> c = 65279)"

text \<open>\<open>String.prototype.trim\<close>: strips white space from both ends.\<close>

definition trim :: "jsstring \<Rightarrow> jsstring" where
  "trim s = rev (dropWhile isWhiteSpace (rev (dropWhile isWhiteSpace s)))"

text \<open>ToBoolean of a string: the empty string is the only falsy one.\<close>

definition truthy :: "jsstring \<Rightarrow> bool" where
  "truthy s = (s \<noteq> [])"

text \<open>ToBoolean of an optional value (\<open>undefined\<close> or \<open>null\<close> is \<open>None\<close>).\<close>

definition truthy_opt :: "jsstring option \<Rightarrow> bool" where
  "truthy_opt v = (case v of None \<Rightarrow> False | Some s \<Rightarrow> truthy s)"

section \<open>The API configuration module (src/config/api.ts)\<close>

text \<open>
  \<open>import.meta.env.VITE_API_URL\<close> is a string or \<open>undefined\<close>. Evaluating the module
  calls \<open>getApiUrl\<close> once; its \<open>throw\<close> is the left injection. The two console calls
  have no effect on the exported values and are left out. \<open>SyntaxError\<close> and
  \<open>TypeError\<close> are the two errors the prescription parser below can raise.
\<close>

datatype js_error = Error jsstring | SyntaxError | TypeError

definition getApiUrl :: "jsstring option \<Rightarrow> js_error + jsstring" where
  "getApiUrl url =
     (if \<not> truthy_opt url
      then Inl (Error (js ''VITE_API_URL not found in environment variables''))
      else Inr (the url))"

record endpoints =
  CHAT :: jsstring
  ANALYZE_SYMPTOMS :: jsstring
  MEDICINE_INFO :: jsstring
  MEDICINE_SEARCH :: jsstring

record api_module =
  API_BASE_URL :: jsstring
  ENDPOINTS :: endpoints

definition api_config :: "jsstring option \<Rightarrow> js_error + api_module" where
  "api_config env =
     (case getApiUrl env of
        Inl e \<Rightarrow> Inl e
      | Inr base \<Rightarrow>
          Inr \<lparr>API_BASE_URL = base,
               ENDPOINTS = \<lparr>CHAT = base @ js ''/api/chat'',
                            ANALYZE_SYMPTOMS = base @ js ''/api/analyze-symptoms'',
                            MEDICINE_INFO = base @ js ''/api/medicine-info'',
                            MEDICINE_SEARCH = base @ js ''/api/medicine-search''\<rparr>\<rparr>)"

section \<open>The chat input (components/ChatInput)\<close>

text \<open>
  The component's state is the text of the box; \<open>disabled\<close> is an optional boolean
  property. \<open>handleSubmit\<close> returns the arguments of the calls to \<open>onSendMessage\<close> it
  makes, in order, and the new text of the box.
\<close>

definition truthy_flag :: "bool option \<Rightarrow> bool" where
  "truthy_flag d = (case d of None \<Rightarrow> False | Some b \<Rightarrow> b)"

definition handleSubmit :: "bool option \<Rightarrow> jsstring \<Rightarrow> jsstring list \<times> jsstring" where
  "handleSubmit disabled message =
     (if truthy (trim message) \<and> \<not> truthy_flag disabled
      then ([trim message], [])
      else ([], message))"

text \<open>\<open>handleKeyDown\<close>: Enter without Shift submits, every other key does nothing here.\<close>

definition handleKeyDown ::
  "jsstring \<Rightarrow> bool \<Rightarrow> bool option \<Rightarrow> jsstring \<Rightarrow> jsstring list \<times> jsstring" where
  "handleKeyDown key shiftKey disabled message =
     (if key = js ''Enter'' \<and> \<not> shiftKey then handleSubmit disabled message
      else ([], message))"

section \<open>Deleting a conversation (pages/Index)\<close>

record Message =
  msg_id :: jsstring
  msg_role :: jsstring
  msg_content :: jsstring
  msg_timestamp :: jsstring

record Conversation =
  conv_id :: jsstring
  conv_created_at :: jsstring
  conv_title :: jsstring

datatype toast = Toast jsstring jsstring bool

text \<open>
  The part of the page's state the handler reads and writes. \<open>user\<close> is the id of the
  signed-in user or \<open>null\<close>; \<open>toasts\<close> collects the toasts shown, the newest last.
\<close>

record Index_state =
  user :: "jsstring option"
  messages :: "Message list"
  currentConversationId :: "jsstring option"
  conversations :: "Conversation list"
  toasts :: "toast list"

text \<open>
  The two awaited Supabase deletions are outside the page; each answers with an error or
  with none. \<open>messagesError\<close> and \<open>conversationError\<close> are these answers. The second
  deletion is only sent when the first gave no error. The handler is modelled as one
  step: no other handler runs between its awaits.
\<close>

definition handleDeleteConversation ::
  "jsstring option \<Rightarrow> jsstring option \<Rightarrow> jsstring \<Rightarrow> Index_state \<Rightarrow> Index_state" where
  "handleDeleteConversation messagesError conversationError ident s =
     (if user s = None then s
      else
        let s1 = (if currentConversationId s = Some ident
                  then s\<lparr>messages := [], currentConversationId := None\<rparr>
                  else s);
            failed = s1\<lparr>toasts := toasts s1 @
                       [Toast (js ''Error'') (js ''Failed to delete conversation'') True]\<rparr>
        in if messagesError \<noteq> None then failed
           else if conversationError \<noteq> None then failed
           else s1\<lparr>conversations := filter (\<lambda>conv. conv_id conv \<noteq> ident) (conversations s1),
                   toasts := toasts s1 @
                       [Toast (js ''Success'') (js ''Conversation deleted successfully'') False]\<rparr>)"

section \<open>Regular expressions\<close>

text \<open>
  The prescription parser works through regular expressions. A pattern is a term of
  \<open>rx\<close>: the empty pattern, a class of code units, a sequence, an ordered choice, a
  greedy star and a numbered capture group. A match state is the captures so far and
  the input still to read. \<open>rxm r st\<close> lists every way \<open>r\<close> can match at the start of
  the input of \<open>st\<close>, in the order in which a backtracking matcher tries them: the head of
  the list is the match ECMAScript reports. An iteration of a star that consumes nothing
  is refused, as RepeatMatcher does; \<open>star_iter\<close> takes the length of the input as its
  bound, which such iterations never exceed.
\<close>

datatype rx = Eps | Cls "nat \<Rightarrow> bool" | Seq rx rx | Alt rx rx | Star rx | Grp nat rx

type_synonym caps = "nat \<rightharpoonup> jsstring"

type_synonym mstate = "caps \<times> jsstring"

fun star_iter :: "(mstate \<Rightarrow> mstate list) \<Rightarrow> nat \<Rightarrow> mstate \<Rightarrow> mstate list" where
  "star_iter f 0 st = [st]"
| "star_iter f (Suc n) st =
     concat (map (\<lambda>st'. if length (snd st') < length (snd st) then star_iter f n st' else [])
                 (f st)) @ [st]"

fun rxm :: "rx \<Rightarrow> mstate \<Rightarrow> mstate list" where
  "rxm Eps st = [st]"
| "rxm (Cls p) (c, s) = (case s of [] \<Rightarrow> [] | x # xs \<Rightarrow> if p x then [(c, xs)] else [])"
| "rxm (Seq a b) st = concat (map (rxm b) (rxm a st))"
| "rxm (Alt a b) st = rxm a st @ rxm b st"
| "rxm (Star a) st = star_iter (rxm a) (length (snd st)) st"
| "rxm (Grp n a) (c, s) =
     map (\<lambda>(c', r). (c'(n \<mapsto> take (length s - length r) s), r)) (rxm a (c, s))"

text \<open>
  \<open>consumed s rest\<close> is the text read between the input \<open>s\<close> and its suffix \<open>rest\<close>.
  \<open>rx_exec\<close> is \<open>String.prototype.match\<close> for a pattern without the global flag: the
  leftmost start position that has a match, and there the first match. It returns the
  matched text (index 0 of the result array) and the captures, or \<open>None\<close> for
  \<open>null\<close>. \<open>rx_test\<close> is \<open>RegExp.prototype.test\<close>.
\<close>

definition consumed :: "jsstring \<Rightarrow> jsstring \<Rightarrow> jsstring" where
  "consumed s rest = take (length s - length rest) s"

fun rx_exec :: "rx \<Rightarrow> jsstring \<Rightarrow> (jsstring \<times> caps) option" where
  "rx_exec r s =
     (case rxm r (Map.empty, s) of
        (c, rest) # _ \<Rightarrow> Some (consumed s rest, c)
      | [] \<Rightarrow> (case s of [] \<Rightarrow> None | _ # xs \<Rightarrow> rx_exec r xs))"

declare rx_exec.simps [simp del]

definition rx_test :: "rx \<Rightarrow> jsstring \<Rightarrow> bool" where
  "rx_test r s = (rx_exec r s \<noteq> None)"

text \<open>
  \<open>String.prototype.split\<close> with a pattern that has no capture group: at each position
  the pattern is tried; a match that is empty at the start of the current piece only
  advances the position; any other match closes the piece and continues after the match.
  The empty string gives one empty piece, or none when the pattern matches it.
\<close>

fun rx_split_from :: "rx \<Rightarrow> jsstring \<Rightarrow> jsstring \<Rightarrow> jsstring list" where
  "rx_split_from r cur [] = [rev cur]"
| "rx_split_from r cur (x # xs) =
     (case rxm r (Map.empty, x # xs) of
        [] \<Rightarrow> rx_split_from r (x # cur) xs
      | (c, rest) # _ \<Rightarrow>
          if length xs < length rest then
            (if cur = [] then rx_split_from r [x] xs
             else rev cur # rx_split_from r [x] xs)
          else rev cur # rx_split_from r [] (drop (length xs - length rest) xs))"

definition rx_split :: "rx \<Rightarrow> jsstring \<Rightarrow> jsstring list" where
  "rx_split r s =
     (if s = [] then (if rxm r (Map.empty, []) = [] then [[]] else [])
      else rx_split_from r [] s)"

text \<open>
  Derived forms: \<open>r+\<close>, \<open>r?\<close>, \<open>r{n}\<close>, \<open>r{0,n}\<close> and \<open>r{m,n}\<close> (all greedy), a literal
  code unit, and a code unit under the flag \<open>i\<close>. Without the flag \<open>u\<close> two code units
  are equal under \<open>i\<close> when their canonical forms are; the canonical form of an ASCII
  letter is its upper case, and no code unit from 128 on has an ASCII canonical form, so
  \<open>canon\<close> may leave those as they are.
\<close>

definition Plus :: "rx \<Rightarrow> rx" where
  "Plus r = Seq r (Star r)"

definition Opt :: "rx \<Rightarrow> rx" where
  "Opt r = Alt r Eps"

fun Rep :: "nat \<Rightarrow> rx \<Rightarrow> rx" where
  "Rep 0 r = Eps"
| "Rep (Suc n) r = Seq r (Rep n r)"

fun UpTo :: "nat \<Rightarrow> rx \<Rightarrow> rx" where
  "UpTo 0 r = Eps"
| "UpTo (Suc n) r = Opt (Seq r (UpTo n r))"

definition Range :: "nat \<Rightarrow> nat \<Rightarrow> rx \<Rightarrow> rx" where
  "Range m n r = Seq (Rep m r) (UpTo (n - m) r)"

definition Chr :: "char \<Rightarrow> rx" where
  "Chr c = Cls (\<lambda>x. x = of_char c)"

definition canon :: "nat \<Rightarrow> nat" where
  "canon x = (if 97 \<le> x \<and> x \<le> 122 then x - 32 else x)"

definition Chi :: "char \<Rightarrow> rx" where
  "Chi c = Cls (\<lambda>x. canon x = canon (of_char c))"

definition Liti :: "string \<Rightarrow> rx" where
  "Liti s = foldr (\<lambda>c r. Seq (Chi c) r) s Eps"

fun Alts :: "rx list \<Rightarrow> rx" where
  "Alts [] = Eps"
| "Alts [r] = r"
| "Alts (r # rs) = Alt r (Alts rs)"

fun Seqs :: "rx list \<Rightarrow> rx" where
  "Seqs [] = Eps"
| "Seqs [r] = r"
| "Seqs (r # rs) = Seq r (Seqs rs)"

definition isDigit :: "nat \<Rightarrow> bool" where
  "isDigit c = (48 \<le> c \<and> c \<le> 57)"

definition isLetter :: "nat \<Rightarrow> bool" where
  "isLetter c = ((65 \<le> c \<and> c \<le> 90) \<or> (97 \<le> c \<and> c \<le> 122))"

definition rx_digit :: rx where "rx_digit = Cls isDigit"

definition rx_space :: rx where "rx_space = Cls isWhiteSpace"

section \<open>The prescription parser (pages/FollowDoses)\<close>

text \<open>
  The patterns of \<open>simpleParsePrescription\<close>, in the order of the source:
  \<open>/\r?\n/\<close>, \<open>/\d{4}-\d{2}-\d{2}/\<close>, \<open>/\d{1,2}\/\d{1,2}\/\d{2,4}/\<close>, the choice of
  the two dates with a group each, \<open>/(\d+)\s*(times|x|per|per day)/i\<close>,
  \<open>/twice|bid|2x/i\<close>, \<open>/thrice|tid|3x/i\<close>, \<open>/[a-zA-Z]/\<close>,
  \<open>/\d|mg|ml|tablet|tab|capsule|cap/i\<close>, \<open>/-|,|:/\<close>, \<open>/(\d+\s*(mg|ml|g))/i\<close> and
  \<open>/([A-Za-z\s]+)\s+(\d+\s*(mg|ml|g))\s*(\d)\s*x?/i\<close>.
\<close>

definition rx_newline :: rx where
  "rx_newline = Seq (Opt (Chr (CHR 0x0D))) (Chr (CHR 0x0A))"

definition rx_iso :: rx where
  "rx_iso = Seqs [Rep 4 rx_digit, Chr CHR ''-'', Rep 2 rx_digit, Chr CHR ''-'', Rep 2 rx_digit]"

definition rx_slash :: rx where
  "rx_slash = Seqs [Range 1 2 rx_digit, Chr CHR ''/'',
                     Range 1 2 rx_digit, Chr CHR ''/'', Range 2 4 rx_digit]"

definition rx_date :: rx where
  "rx_date = Alt (Grp 1 rx_iso) (Grp 2 rx_slash)"

definition rx_tp :: rx where
  "rx_tp = Seqs [Grp 1 (Plus rx_digit), Star rx_space,
                 Grp 2 (Alts [Liti ''times'', Liti ''x'', Liti ''per'', Liti ''per day''])]"

definition rx_twice :: rx where
  "rx_twice = Alts [Liti ''twice'', Liti ''bid'', Liti ''2x'']"

definition rx_thrice :: rx where
  "rx_thrice = Alts [Liti ''thrice'', Liti ''tid'', Liti ''3x'']"

definition rx_letter :: rx where
  "rx_letter = Cls isLetter"

definition rx_medword :: rx where
  "rx_medword = Alts [rx_digit, Liti ''mg'', Liti ''ml'', Liti ''tablet'', Liti ''tab'',
                      Liti ''capsule'', Liti ''cap'']"

definition rx_sep :: rx where
  "rx_sep = Alts [Chr CHR ''-'', Chr CHR '','', Chr CHR '':'']"

definition rx_unit :: rx where
  "rx_unit = Alts [Liti ''mg'', Liti ''ml'', Liti ''g'']"

definition rx_dose :: rx where
  "rx_dose = Grp 1 (Seqs [Plus rx_digit, Star rx_space, Grp 2 rx_unit])"

definition rx_line2 :: rx where
  "rx_line2 = Seqs [Grp 1 (Plus (Cls (\<lambda>c. isLetter c \<or> isWhiteSpace c))), Plus rx_space,
                    Grp 2 (Seqs [Plus rx_digit, Star rx_space, Grp 3 rx_unit]),
                    Star rx_space, Grp 4 rx_digit, Star rx_space,
                    Opt (Chi CHR ''x'')]"

text \<open>
  A JavaScript number as far as this function makes one: \<open>NaN\<close>, a double that is a
  whole number, or an infinity. \<open>parseInt10\<close> is \<open>parseInt(s, 10)\<close>: leading white space,
  an optional sign, then the longest prefix of decimal digits, whose value becomes a
  double. \<open>to_double\<close> rounds a natural number to the nearest double, ties to the even
  significand of 53 binary digits, and has no result when that is beyond the largest
  double: the number is then an infinity. (For more than 20 significant digits the
  language lets an engine read the digits after the 20th as zeros; that choice is not
  modelled.) \<open>bit_length\<close> counts the binary digits of a number. \<open>or1 n\<close> is \<open>n || 1\<close>.
  \<open>capture m k\<close> is the string \<open>parseInt\<close> receives for \<open>m[k]\<close>: \<open>undefined\<close> is converted
  to the string of that name.
\<close>

datatype jsnum = NaN | Num int | PosInfinity | NegInfinity

fun bit_length :: "nat \<Rightarrow> nat" where
  "bit_length n = (if n = 0 then 0 else Suc (bit_length (n div 2)))"

declare bit_length.simps [simp del]

definition to_double :: "nat \<Rightarrow> nat option" where
  "to_double n =
     (if n < 2 ^ 53 then Some n
      else
        let e = bit_length n - 53;
            q = n div 2 ^ e;
            r = n mod 2 ^ e;
            q' = (if 2 ^ e < 2 * r \<or> (2 * r = 2 ^ e \<and> odd q) then q + 1 else q);
            v = q' * 2 ^ e
        in if 2 ^ 1024 \<le> v then None else Some v)"

definition dec :: "jsstring \<Rightarrow> nat" where
  "dec z = foldl (\<lambda>a d. 10 * a + (d - 48)) 0 z"

definition parseInt10 :: "jsstring \<Rightarrow> jsnum" where
  "parseInt10 s =
     (let t = dropWhile isWhiteSpace s;
          neg = (t \<noteq> [] \<and> hd t = 45);
          u = (if t \<noteq> [] \<and> (hd t = 43 \<or> hd t = 45) then tl t else t);
          z = takeWhile isDigit u
      in if z = [] then NaN
         else (case to_double (dec z) of
                 None \<Rightarrow> if neg then NegInfinity else PosInfinity
               | Some v \<Rightarrow> Num ((if neg then - 1 else 1) * int v)))"

definition or1 :: "jsnum \<Rightarrow> jsnum" where
  "or1 n =
     (case n of
        NaN \<Rightarrow> Num 1
      | Num k \<Rightarrow> if k = 0 then Num 1 else Num k
      | PosInfinity \<Rightarrow> PosInfinity
      | NegInfinity \<Rightarrow> NegInfinity)"

definition capture :: "caps \<Rightarrow> nat \<Rightarrow> jsstring" where
  "capture m k = (case m k of None \<Rightarrow> js ''undefined'' | Some w \<Rightarrow> w)"

text \<open>
  \<open>startsWith\<close>, \<open>split\<close> on a one-unit separator and \<open>join\<close>;
  \<open>after_colon line\<close> is \<open>line.split(":").slice(1).join(":").trim()\<close>.
\<close>

definition startsWith :: "jsstring \<Rightarrow> jsstring \<Rightarrow> bool" where
  "startsWith s p = (take (length p) s = p)"

fun str_split :: "nat \<Rightarrow> jsstring \<Rightarrow> jsstring list" where
  "str_split c [] = [[]]"
| "str_split c (x # xs) =
     (if x = c then [] # str_split c xs
      else (case str_split c xs of [] \<Rightarrow> [[x]] | p # ps \<Rightarrow> (x # p) # ps))"

fun join :: "jsstring \<Rightarrow> jsstring list \<Rightarrow> jsstring" where
  "join sep [] = []"
| "join sep [p] = p"
| "join sep (p # q # ps) = p @ sep @ join sep (q # ps)"

definition after_colon :: "jsstring \<Rightarrow> jsstring" where
  "after_colon line = trim (join (js '':'') (drop 1 (str_split 58 line)))"

record MedItem =
  name :: jsstring
  dose :: "jsstring option"
  timesPerDay :: jsnum

record parsed =
  patientName :: "jsstring option"
  prescribedDate :: "jsstring option"
  meds :: "MedItem list"

text \<open>
  The frequency of a medicine line (the variable \<open>timesPerDay\<close> of the first loop).
\<close>

definition frequency :: "jsstring \<Rightarrow> jsnum" where
  "frequency line =
     (case rx_exec rx_tp line of
        Some (m0, tp) \<Rightarrow> or1 (parseInt10 (capture tp 1))
      | None \<Rightarrow> if rx_test rx_twice line then Num 2
                else if rx_test rx_thrice line then Num 3
                else Num 1)"

text \<open>
  One round of the first loop. \<open>toLowerCase\<close> is \<open>String.prototype.toLowerCase\<close>, whose
  Unicode tables are the engine's; it is a parameter.

  The first statement after the date branch is
  \<open>const freqMatch = line.match(/(\d+)\s*(times|x|x\/day|per day|/i)\<close>. The second group
  of that literal is never closed, so the literal is not a regular expression of the
  language and evaluating the statement yields no match: it throws a \<open>SyntaxError\<close>.
  That is \<open>freqMatch\<close>. The rest of the loop body follows as the source has it, although
  no line gets there.

  An ill-formed literal is an early error of the language. \<open>regexp_errors\<close> says when the
  engine reports it: \<open>AtParse\<close>, when the script is parsed, so that no call of the function
  runs any of its statements and every call ends in the \<open>SyntaxError\<close>; or \<open>AtFirstUse\<close>,
  when the statement is evaluated, as in an engine that compiles a literal on first use.
\<close>

datatype regexp_errors = AtParse | AtFirstUse

definition freqMatch :: "jsstring \<Rightarrow> js_error + (jsstring \<times> caps) option" where
  "freqMatch line = Inl SyntaxError"

definition parse_line ::
  "(jsstring \<Rightarrow> jsstring) \<Rightarrow> parsed \<Rightarrow> jsstring \<Rightarrow> js_error + parsed" where
  "parse_line toLowerCase st line =
     (let lower = toLowerCase line in
      if \<not> truthy_opt (patientName st) \<and>
         (startsWith lower (js ''name:'') \<or> startsWith lower (js ''patient:''))
      then Inr (st\<lparr>patientName := Some (after_colon line)\<rparr>)
      else if \<not> truthy_opt (prescribedDate st) \<and>
              (startsWith lower (js ''date:'') \<or> rx_test rx_iso line \<or> rx_test rx_slash line)
      then Inr (st\<lparr>prescribedDate :=
                   Some (case rx_exec rx_date line of
                           Some (m0, m) \<Rightarrow> m0
                         | None \<Rightarrow> after_colon line)\<rparr>)
      else case freqMatch line of
        Inl e \<Rightarrow> Inl e
      | Inr unused \<Rightarrow>
          let timesPerDay = frequency line in
          if rx_test rx_letter line \<and> rx_test rx_medword line
          then
            let parts = filter truthy (map trim (rx_split rx_sep line));
                nm = (case parts of [] \<Rightarrow> None | p # ps \<Rightarrow> Some p);
                doseMatch = rx_exec rx_dose line
            in Inr (st\<lparr>meds := meds st @
                      [\<lparr>name = (case nm of None \<Rightarrow> line
                                 | Some p \<Rightarrow> if truthy p then p else line),
                        dose = map_option fst doseMatch,
                        timesPerDay = timesPerDay\<rparr>]\<rparr>)
          else Inr st)"

fun first_loop ::
  "(jsstring \<Rightarrow> jsstring) \<Rightarrow> parsed \<Rightarrow> jsstring list \<Rightarrow> js_error + parsed" where
  "first_loop lc st [] = Inr st"
| "first_loop lc st (line # ls) =
     (case parse_line lc st line of
        Inl e \<Rightarrow> Inl e
      | Inr st' \<Rightarrow> first_loop lc st' ls)"

text \<open>
  The second loop runs when the first found no medicine. \<open>m[1].trim()\<close> and
  \<open>m[2].trim()\<close> throw a \<open>TypeError\<close> on \<open>undefined\<close>.
\<close>

fun second_loop :: "MedItem list \<Rightarrow> jsstring list \<Rightarrow> js_error + MedItem list" where
  "second_loop ms [] = Inr ms"
| "second_loop ms (line # ls) =
     (case rx_exec rx_line2 line of
        None \<Rightarrow> second_loop ms ls
      | Some (m0, m) \<Rightarrow>
          (case m 1 of
             None \<Rightarrow> Inl TypeError
           | Some g1 \<Rightarrow>
               (case m 2 of
                  None \<Rightarrow> Inl TypeError
                | Some g2 \<Rightarrow>
                    second_loop
                      (ms @ [\<lparr>name = trim g1, dose = Some (trim g2),
                              timesPerDay = or1 (parseInt10 (capture m 4))\<rparr>]) ls)))"

definition simpleParsePrescription ::
  "regexp_errors \<Rightarrow> (jsstring \<Rightarrow> jsstring) \<Rightarrow> jsstring \<Rightarrow> js_error + parsed" where
  "simpleParsePrescription engine lc text =
     (case engine of
        AtParse \<Rightarrow> Inl SyntaxError
      | AtFirstUse \<Rightarrow>
          let lines = filter truthy (map trim (rx_split rx_newline text)) in
          case first_loop lc \<lparr>patientName = None, prescribedDate = None, meds = []\<rparr> lines of
            Inl e \<Rightarrow> Inl e
          | Inr st \<Rightarrow>
              if length (meds st) = 0
              then (case second_loop (meds st) lines of
                      Inl e \<Rightarrow> Inl e
                    | Inr ms \<Rightarrow> Inr (st\<lparr>meds := ms\<rparr>))
              else Inr st)"

text \<open>
  Lower case of the ASCII letters only: an instance of \<open>toLowerCase\<close> that agrees with
  the engine on ASCII text.
\<close>

definition ascii_lower :: "jsstring \<Rightarrow> jsstring" where
  "ascii_lower s = map (\<lambda>x. if 65 \<le> x \<and> x \<le> 90 then x + 32 else x) s"

text \<open>
  Predicates for the proofs: a number that is at least 1; a pattern all of whose classes
  lie within \<open>P\<close>; a pattern all of whose groups numbered \<open>k\<close> have a body within \<open>P\<close>;
  a capture that is unset or within \<open>P\<close>; a pattern every match of which sets group
  \<open>k\<close>; a list of medicines whose frequencies are all at least 1.
\<close>

definition ge1 :: "jsnum \<Rightarrow> bool" where
  "ge1 n =
     (case n of
        NaN \<Rightarrow> False
      | Num k \<Rightarrow> 1 \<le> k
      | PosInfinity \<Rightarrow> True
      | NegInfinity \<Rightarrow> False)"

fun rx_within :: "(nat \<Rightarrow> bool) \<Rightarrow> rx \<Rightarrow> bool" where
  "rx_within P Eps = True"
| "rx_within P (Cls p) = (\<forall>x. p x \<longrightarrow> P x)"
| "rx_within P (Seq a b) = (rx_within P a \<and> rx_within P b)"
| "rx_within P (Alt a b) = (rx_within P a \<and> rx_within P b)"
| "rx_within P (Star a) = rx_within P a"
| "rx_within P (Grp n a) = rx_within P a"

fun grp_within :: "nat \<Rightarrow> (nat \<Rightarrow> bool) \<Rightarrow> rx \<Rightarrow> bool" where
  "grp_within k P Eps = True"
| "grp_within k P (Cls p) = True"
| "grp_within k P (Seq a b) = (grp_within k P a \<and> grp_within k P b)"
| "grp_within k P (Alt a b) = (grp_within k P a \<and> grp_within k P b)"
| "grp_within k P (Star a) = grp_within k P a"
| "grp_within k P (Grp n a) = ((n = k \<longrightarrow> rx_within P a) \<and> grp_within k P a)"

definition cap_within :: "(nat \<Rightarrow> bool) \<Rightarrow> jsstring option \<Rightarrow> bool" where
  "cap_within P v = (case v of None \<Rightarrow> True | Some w \<Rightarrow> list_all P w)"

fun must :: "nat \<Rightarrow> rx \<Rightarrow> bool" where
  "must k Eps = False"
| "must k (Cls p) = False"
| "must k (Seq a b) = (must k a \<or> must k b)"
| "must k (Alt a b) = (must k a \<and> must k b)"
| "must k (Star a) = False"
| "must k (Grp n a) = (n = k \<or> must k a)"

definition meds_ok :: "MedItem list \<Rightarrow> bool" where
  "meds_ok ms = list_all (\<lambda>m. ge1 (timesPerDay m)) ms"

section \<open>The hybrid decision core\<close>

text \<open>
  The training pipeline and the Decision Engine are Python code of the repository's
  backend (\<open>scripts/train_models.py\<close>, \<open>app/services/chat_service.py\<close>,
  \<open>model_trainer.py\<close>), which is not among the source files; only their documentation
  is. Every definition of this section is therefore written from the specification, and
  says so. Numbers that the specification calls floats are real numbers here.
\<close>

text \<open>Modelled from the spec: the EmbeddingVector of section 3, a fixed-length array
  of numbers. The Feature Encoder that produces it is missing.\<close>

type_synonym vec = "real list"

text \<open>Modelled from the spec: the inner product of two vectors, for the cosine
  similarity of section 4.4. The Similarity Index Builder is missing.\<close>

definition dot :: "vec \<Rightarrow> vec \<Rightarrow> real" where
  "dot a b = sum_list (map (\<lambda>(x, y). x * y) (zip a b))"

text \<open>Modelled from the spec: the Euclidean norm of a vector, for the cosine
  similarity of section 4.4.\<close>

definition norm2 :: "vec \<Rightarrow> real" where
  "norm2 a = sqrt (sum_list (map (\<lambda>x. x * x) a))"

text \<open>Modelled from the spec: cosine similarity, the score of the similarity index
  (section 4.4): the inner product over the product of the norms. The
  specification does not say what the score of a zero vector is; it is 0 here.\<close>

definition cosine :: "vec \<Rightarrow> vec \<Rightarrow> real" where
  "cosine a b = (if norm2 a = 0 \<or> norm2 b = 0 then 0 else dot a b / (norm2 a * norm2 b))"

text \<open>Modelled from the spec: the order of the ranking of section 4.4 on scored
  keys: by similarity, descending, ties broken by lexical order of the key.\<close>

definition ranks_before :: "string \<times> real \<Rightarrow> string \<times> real \<Rightarrow> bool" where
  "ranks_before a b = (snd b < snd a \<or> (snd a = snd b \<and> fst a \<le> fst b))"

text \<open>Modelled from the spec: insertion of a scored key into a ranked list, at its
  place in the order of section 4.4.\<close>

fun insert_ranked :: "string \<times> real \<Rightarrow> (string \<times> real) list \<Rightarrow> (string \<times> real) list" where
  "insert_ranked a [] = [a]"
| "insert_ranked a (b # bs) = (if ranks_before a b then a # b # bs else b # insert_ranked a bs)"

text \<open>Modelled from the spec: the ranking of the scored keys of an index (section
  4.4), by insertion.\<close>

definition rank :: "(string \<times> real) list \<Rightarrow> (string \<times> real) list" where
  "rank xs = foldr insert_ranked xs []"

text \<open>Modelled from the spec: the payload of a similarity index (section 4.4): keyed
  vectors.\<close>

type_synonym index = "(string \<times> vec) list"

text \<open>Modelled from the spec: the query contract of section 4.4, by the linear scan
  of section 9: every entry of the index is scored against the query vector, the
  scored keys are ranked, and the first \<open>k\<close> are returned.\<close>

definition query :: "index \<Rightarrow> vec \<Rightarrow> nat \<Rightarrow> (string \<times> real) list" where
  "query idx v k = take k (rank (map (\<lambda>(key, w). (key, cosine v w)) idx))"

text \<open>Modelled from the spec: a symptom token (glossary), a normalized string. The
  symptom extraction that produces tokens is missing.\<close>

type_synonym token = string

text \<open>Modelled from the spec: the TrainingRecord of section 3. The Corpus Loader
  that produces records is missing.\<close>

record TrainingRecord =
  symptom_set :: "token list"
  disease_label :: "string option"
  severity_label :: "int option"
  emergency_label :: "bool option"

text \<open>Modelled from the spec: the three target models of section 4.1.\<close>

datatype target = Disease | Severity | Emergency

text \<open>Modelled from the spec: the errors of the core. \<open>DataError\<close> and
  \<open>EncodingError\<close> are of the taxonomy of section 7 (its \<open>ArtifactMissing\<close> is not
  raised: it is the absence of an artifact from the loaded snapshot);
  \<open>FitFailure\<close> is the reported failure of a learner (section 4.3);
  \<open>EmptySymptomSet\<close> is the rejection of the last scenario of section 8.\<close>

datatype core_error = DataError target | FitFailure target | EmptySymptomSet | EncodingError

text \<open>Modelled from the spec: a record has the label a classifier needs (section
  4.1).\<close>

definition has_label :: "target \<Rightarrow> TrainingRecord \<Rightarrow> bool" where
  "has_label t r =
     (case t of
        Disease \<Rightarrow> disease_label r \<noteq> None
      | Severity \<Rightarrow> severity_label r \<noteq> None
      | Emergency \<Rightarrow> emergency_label r \<noteq> None)"

text \<open>Modelled from the spec: the Corpus Loader (section 4.1). The per-schema
  adapters are a parameter: an adapter maps a source row to a record, or drops a
  malformed row. Records with an empty symptom set are dropped (invariant of
  section 3).\<close>

definition load_records :: "('row \<Rightarrow> TrainingRecord option) \<Rightarrow> 'row list \<Rightarrow> TrainingRecord list" where
  "load_records adapter rows =
     filter (\<lambda>r. symptom_set r \<noteq> []) (List.map_filter adapter rows)"

text \<open>Modelled from the spec: the deduplicated training set of one target: the
  loaded records that have its label (section 4.1).\<close>

definition training_set ::
  "('row \<Rightarrow> TrainingRecord option) \<Rightarrow> target \<Rightarrow> 'row list \<Rightarrow> TrainingRecord list" where
  "training_set adapter t rows = remdups (filter (has_label t) (load_records adapter rows))"

text \<open>Modelled from the spec: loading for one target fails with
  \<open>DataError\<close> when its training set is empty (section 4.1).\<close>

definition load_target ::
  "('row \<Rightarrow> TrainingRecord option) \<Rightarrow> target \<Rightarrow> 'row list \<Rightarrow> core_error + TrainingRecord list" where
  "load_target adapter t rows =
     (if training_set adapter t rows = [] then Inl (DataError t)
      else Inr (training_set adapter t rows))"

text \<open>Modelled from the spec: the payload of the disease classifier (sections 3 and
  4.3) as what it predicts: a label and a confidence, or no output.\<close>

type_synonym disease_model = "vec \<Rightarrow> (string \<times> real) option"

text \<open>Modelled from the spec: the payload of the severity and of the emergency
  classifier (sections 3 and 4.3) as what it predicts: a number of any size, or no
  output.\<close>

type_synonym score_model = "vec \<Rightarrow> real option"

text \<open>Modelled from the spec: the learners of the Classifier Trainer (section 4.3)
  and the embedding model (section 4.2) are libraries outside the repository, and
  parameters here: a fit on a training set either yields a model or fails (as with
  too few distinct labels).\<close>

record trainers =
  fit_disease :: "TrainingRecord list \<Rightarrow> disease_model option"
  fit_severity :: "TrainingRecord list \<Rightarrow> score_model option"
  fit_emergency :: "TrainingRecord list \<Rightarrow> score_model option"
  embed :: "string \<Rightarrow> vec"

text \<open>Modelled from the spec: the Model Artifact Store (section 6): one slot per
  artifact kind, holding a version tag and a payload, or empty.\<close>

record store =
  disease_slot :: "(nat \<times> disease_model) option"
  severity_slot :: "(nat \<times> score_model) option"
  emergency_slot :: "(nat \<times> score_model) option"
  symptom_index_slot :: "(nat \<times> index) option"
  disease_index_slot :: "(nat \<times> index) option"

text \<open>Modelled from the spec: one of the three independent training passes (section
  4.3), with what it reports and the artifact it yields. A \<open>DataError\<close> of the
  loader is reported and the artifact omitted; otherwise the learner is run on the
  training set, and its failure is reported and the artifact omitted.\<close>

definition train_target ::
  "('row \<Rightarrow> TrainingRecord option) \<Rightarrow> target \<Rightarrow> (TrainingRecord list \<Rightarrow> 'm option) \<Rightarrow>
   'row list \<Rightarrow> core_error list \<times> 'm option" where
  "train_target adapter t fit rows =
     (case load_target adapter t rows of
        Inl e \<Rightarrow> ([e], None)
      | Inr recs \<Rightarrow>
          (case fit recs of
             None \<Rightarrow> ([FitFailure t], None)
           | Some m \<Rightarrow> ([], Some m)))"

text \<open>Modelled from the spec: the Similarity Index Builder (section 4.4): one vector
  per distinct key.\<close>

definition build_index :: "(string \<Rightarrow> vec) \<Rightarrow> string list \<Rightarrow> index" where
  "build_index emb keys = map (\<lambda>key. (key, emb key)) (remdups keys)"

text \<open>Modelled from the spec: the training entry point "rebuild all artifacts from
  the current corpus" (section 6). Every slot is written anew (section 3); the
  reports of the three passes are collected, the disease pass first.\<close>

definition rebuild_all ::
  "trainers \<Rightarrow> ('row \<Rightarrow> TrainingRecord option) \<Rightarrow> 'row list \<Rightarrow> nat \<Rightarrow> core_error list \<times> store" where
  "rebuild_all tr adapter rows version =
     (let recs = load_records adapter rows;
          d = train_target adapter Disease (fit_disease tr) rows;
          s = train_target adapter Severity (fit_severity tr) rows;
          e = train_target adapter Emergency (fit_emergency tr) rows
      in (fst d @ fst s @ fst e,
          \<lparr>disease_slot = map_option (Pair version) (snd d),
           severity_slot = map_option (Pair version) (snd s),
           emergency_slot = map_option (Pair version) (snd e),
           symptom_index_slot =
             Some (version, build_index (embed tr) (concat (map symptom_set recs))),
           disease_index_slot =
             Some (version, build_index (embed tr) (List.map_filter disease_label recs))\<rparr>))"

text \<open>Modelled from the spec: the snapshot of loaded artifacts the engine holds once
  Ready (sections 4.5 and 9): each classifier and index is present or absent.\<close>

record artifacts =
  disease_clf :: "disease_model option"
  severity_clf :: "score_model option"
  emergency_clf :: "score_model option"
  symptom_index :: "index option"
  disease_index :: "index option"

text \<open>Modelled from the spec: the knowledge-base collaborator, by its contract of
  section 6: it returns a rule-based severity estimate and a rule-based emergency
  estimate, usable as fallback. (Its precaution text and decision-tree nodes go to
  response generation and are no part of a Decision.) The contract names no
  estimate of the disease.\<close>

record knowledge_base =
  kb_severity :: "token list \<Rightarrow> real"
  kb_emergency :: "token list \<Rightarrow> bool"

text \<open>Modelled from the spec: provenance (glossary): a field comes from a trained
  model or from the rule-based fallback.\<close>

datatype provenance = Model | Fallback

text \<open>Modelled from the spec: a field of a Decision with its provenance, or the
  explicit indeterminate marker of section 7.\<close>

datatype 'a field = Indeterminate | Determined 'a provenance

text \<open>Modelled from the spec: the Decision of section 3, each predicted field with
  its provenance; \<open>surfaced\<close> holds the errors surfaced to the
  caller (section 7).\<close>

record Decision =
  predicted_disease :: "string field"
  disease_confidence :: real
  severity_score :: "int field"
  emergency_flag :: "bool field"
  similar_symptoms :: "(string \<times> real) list"
  similar_diseases :: "(string \<times> real) list"
  surfaced :: "core_error list"

text \<open>Modelled from the spec: severity is collapsed to an integer from 1 to 10 by
  rounding and clamping (sections 4.3 and 4.5 d).\<close>

definition clamp_severity :: "real \<Rightarrow> int" where
  "clamp_severity x = max 1 (min 10 (round x))"

text \<open>Modelled from the spec: the confidence is kept within 0 and 1 (section 3).\<close>

definition clamp_confidence :: "real \<Rightarrow> real" where
  "clamp_confidence x = max 0 (min 1 x)"

text \<open>Modelled from the spec: the fixed cutoff 0.5 of the emergency classifier
  (section 4.3).\<close>

definition cutoff :: real where
  "cutoff = 1 / 2"

text \<open>Modelled from the spec: a loaded classifier predicts from the encoded
  symptoms; an absent classifier, a failed encoding or a missing output gives no
  prediction (sections 4.5 b and 7).\<close>

definition predict :: "(vec \<Rightarrow> 'a option) option \<Rightarrow> vec option \<Rightarrow> 'a option" where
  "predict clf v =
     (case clf of
        None \<Rightarrow> None
      | Some f \<Rightarrow> (case v of None \<Rightarrow> None | Some x \<Rightarrow> f x))"

text \<open>Modelled from the spec: the hybrid fallback contract (sections 4.5 b and 7):
  the model's output when there is one, else the knowledge-base estimate, else
  the indeterminate marker.\<close>

definition resolve :: "'a option \<Rightarrow> 'a option \<Rightarrow> 'a field" where
  "resolve model_output fallback =
     (case model_output of
        Some x \<Rightarrow> Determined x Model
      | None \<Rightarrow> (case fallback of Some y \<Rightarrow> Determined y Fallback | None \<Rightarrow> Indeterminate))"

text \<open>Modelled from the spec: the context query of section 4.5 c against an index
  that may be absent.\<close>

definition lookup :: "index option \<Rightarrow> vec option \<Rightarrow> nat \<Rightarrow> (string \<times> real) list" where
  "lookup idx v k =
     (case idx of
        None \<Rightarrow> []
      | Some entries \<Rightarrow> (case v of None \<Rightarrow> [] | Some x \<Rightarrow> query entries x k))"

text \<open>Modelled from the spec: the Decision Engine serving one request (section 4.5).
  The Feature Encoder is a parameter; \<open>None\<close> is its
  \<open>EncodingError\<close>. An empty symptom set is rejected before encoding
  (section 8). The severity and the emergency field fall back on the estimates of
  the knowledge base; the disease field has no fallback in its contract.\<close>

definition decide ::
  "(token list \<Rightarrow> vec option) \<Rightarrow> nat \<Rightarrow> artifacts \<Rightarrow> knowledge_base \<Rightarrow> token list \<Rightarrow>
   core_error + Decision" where
  "decide encode k arts kb symptoms =
     (if symptoms = [] then Inl EmptySymptomSet
      else
        let v = encode symptoms;
            dis = resolve (predict (disease_clf arts) v) None;
            sev = resolve (map_option clamp_severity (predict (severity_clf arts) v))
                          (Some (clamp_severity (kb_severity kb symptoms)));
            emg = resolve (map_option (\<lambda>p. cutoff \<le> p) (predict (emergency_clf arts) v))
                          (Some (kb_emergency kb symptoms))
        in Inr \<lparr>predicted_disease =
                   (case dis of Indeterminate \<Rightarrow> Indeterminate
                    | Determined d p \<Rightarrow> Determined (fst d) p),
                 disease_confidence =
                   (case dis of Indeterminate \<Rightarrow> 0
                    | Determined d p \<Rightarrow> clamp_confidence (snd d)),
                 severity_score = sev,
                 emergency_flag = emg,
                 similar_symptoms = lookup (symptom_index arts) v k,
                 similar_diseases = lookup (disease_index arts) v k,
                 surfaced = (if v = None then [EncodingError] else [])\<rparr>)"

text \<open>
  Sample inputs for the examples below: an engine whose disease classifier gives no
  output, whose severity classifier answers out of range and whose emergency classifier
  is absent; a knowledge base; a corpus of two records without emergency label; learners
  of which the disease learner needs two distinct labels; an index in which two keys have
  parallel vectors; and an encoder that always answers.
\<close>

definition wild_artifacts :: artifacts where
  "wild_artifacts = \<lparr>disease_clf = Some (\<lambda>v. None), severity_clf = Some (\<lambda>v. Some (73 / 5)),
                      emergency_clf = None, symptom_index = None, disease_index = None\<rparr>"

definition cautious_kb :: knowledge_base where
  "cautious_kb = \<lparr>kb_severity = (\<lambda>s. 4), kb_emergency = (\<lambda>s. True)\<rparr>"

definition flu_corpus :: "TrainingRecord list" where
  "flu_corpus =
     [\<lparr>symptom_set = [''fever'', ''headache'', ''body_ache''], disease_label = Some ''Flu'',
       severity_label = Some 4, emergency_label = None\<rparr>,
      \<lparr>symptom_set = [''cough''], disease_label = Some ''Cold'',
       severity_label = Some 2, emergency_label = None\<rparr>]"

definition label_trainers :: trainers where
  "label_trainers =
     \<lparr>fit_disease =
        (\<lambda>recs. case remdups (List.map_filter disease_label recs) of
                  a # b # ls \<Rightarrow> Some (\<lambda>v. Some (a, 1))
                | _ \<Rightarrow> None),
      fit_severity =
        (\<lambda>recs. case List.map_filter severity_label recs of
                  [] \<Rightarrow> None
                | s # ss \<Rightarrow> Some (\<lambda>v. Some (real_of_int s))),
      fit_emergency =
        (\<lambda>recs. case List.map_filter emergency_label recs of
                  [] \<Rightarrow> None
                | b # bs \<Rightarrow> Some (\<lambda>v. Some (if b then 1 else 0))),
      embed = (\<lambda>key. [1, 0])\<rparr>"


definition unit_encoder :: "token list \<Rightarrow> vec option" where
  "unit_encoder s = Some [1, 0]"

section \<open>Properties of the user interface\<close>

lemma list_all_dropWhile: "list_all P (dropWhile P s) \<longleftrightarrow> list_all P s"
  by (induction s) auto

lemma trim_empty_iff: "trim s = [] \<longleftrightarrow> list_all isWhiteSpace s"
proof -
  have "trim s = [] \<longleftrightarrow> list_all isWhiteSpace (dropWhile isWhiteSpace s)"
    by (simp add: trim_def dropWhile_eq_Nil_conv list_all_iff)
  then show ?thesis
    by (simp add: list_all_dropWhile)
qed

text \<open>
  C8. Evaluating the API configuration module throws whenever \<open>VITE_API_URL\<close> is unset
  or empty; otherwise \<open>API_BASE_URL\<close> is exactly that value and each of the four
  endpoints is the base followed by its fixed path.
\<close>

theorem api_config_spec:
  "api_config None = Inl (Error (js ''VITE_API_URL not found in environment variables'')) \<and>
   api_config (Some []) = Inl (Error (js ''VITE_API_URL not found in environment variables'')) \<and>
   (url \<noteq> [] \<longrightarrow>
      api_config (Some url) =
        Inr \<lparr>API_BASE_URL = url,
             ENDPOINTS = \<lparr>CHAT = url @ js ''/api/chat'',
                          ANALYZE_SYMPTOMS = url @ js ''/api/analyze-symptoms'',
                          MEDICINE_INFO = url @ js ''/api/medicine-info'',
                          MEDICINE_SEARCH = url @ js ''/api/medicine-search''\<rparr>\<rparr>)"
  by (simp add: api_config_def getApiUrl_def truthy_opt_def truthy_def)

theorem api_config_spec_witness:
  "js ''http://h'' \<noteq> [] \<and>
   (case api_config (Some (js ''http://h'')) of
      Inl e \<Rightarrow> False
    | Inr m \<Rightarrow> API_BASE_URL m = js ''http://h'' \<and>
               CHAT (ENDPOINTS m) = js ''http://h/api/chat'' \<and>
               MEDICINE_SEARCH (ENDPOINTS m) = js ''http://h/api/medicine-search'')"
  using api_config_spec [of "js ''http://h''"] by (simp add: js_def)

text \<open>
  C7. An empty or white-space-only text is rejected at the chat input: neither the submit
  handler nor the Enter key calls \<open>onSendMessage\<close>, so no request leaves the page and
  nothing is encoded or decided for it; the text of the box stays as it is.
\<close>

theorem chat_input_rejects_blank:
  "message = [] \<or> list_all isWhiteSpace message \<or> trim message = [] \<Longrightarrow>
     handleSubmit disabled message = ([], message) \<and>
     handleKeyDown key shiftKey disabled message = ([], message)"
proof -
  assume "message = [] \<or> list_all isWhiteSpace message \<or> trim message = []"
  then have "trim message = []"
    by (auto simp: trim_empty_iff)
  then show ?thesis
    by (simp add: handleSubmit_def handleKeyDown_def truthy_def)
qed

theorem chat_input_rejects_blank_witness:
  "list_all isWhiteSpace [32, 9, 10, 12288] \<and>
   handleSubmit (Some False) [32, 9, 10, 12288] = ([], [32, 9, 10, 12288]) \<and>
   handleKeyDown (js ''Enter'') False None [32, 9, 10, 12288] = ([], [32, 9, 10, 12288])"
proof -
  have h: "list_all isWhiteSpace [32, 9, 10, 12288]"
    by (simp add: isWhiteSpace_def)
  then have "[32, 9, 10, 12288] = [] \<or> list_all isWhiteSpace [32, 9, 10, 12288] \<or>
             trim [32, 9, 10, 12288] = []"
    by blast
  from chat_input_rejects_blank [OF this, of "Some False" "js ''Enter''" False] 
       chat_input_rejects_blank [OF this, of None "js ''Enter''" False] h
  show ?thesis by blast
qed

text \<open>
  C10. Deleting a conversation other than the selected one leaves the messages and the
  selection as they are; when both deletions succeed, the conversations list loses
  exactly the entries with that id, and otherwise it is unchanged. Only the deletion of
  the selected conversation clears the messages and resets the selection to \<open>null\<close>.
\<close>

theorem handleDeleteConversation_frame:
  "(currentConversationId s \<noteq> Some ident \<longrightarrow>
      messages (handleDeleteConversation merr cerr ident s) = messages s \<and>
      currentConversationId (handleDeleteConversation merr cerr ident s) =
        currentConversationId s) \<and>
   (user s \<noteq> None \<and> merr = None \<and> cerr = None \<longrightarrow>
      conversations (handleDeleteConversation merr cerr ident s) =
        filter (\<lambda>conv. conv_id conv \<noteq> ident) (conversations s)) \<and>
   (user s = None \<or> merr \<noteq> None \<or> cerr \<noteq> None \<longrightarrow>
      conversations (handleDeleteConversation merr cerr ident s) = conversations s) \<and>
   (user s \<noteq> None \<and> currentConversationId s = Some ident \<longrightarrow>
      messages (handleDeleteConversation merr cerr ident s) = [] \<and>
      currentConversationId (handleDeleteConversation merr cerr ident s) = None)"
  by (simp add: handleDeleteConversation_def Let_def)

theorem handleDeleteConversation_frame_witness:
  "currentConversationId
     \<lparr>user = Some (js ''u''),
      messages = [\<lparr>msg_id = js ''1'', msg_role = js ''user'', msg_content = js ''hi'',
                   msg_timestamp = js ''t''\<rparr>],
      currentConversationId = Some (js ''a''),
      conversations = [\<lparr>conv_id = js ''a'', conv_created_at = js ''t'', conv_title = js ''A''\<rparr>,
                       \<lparr>conv_id = js ''b'', conv_created_at = js ''t'', conv_title = js ''B''\<rparr>],
      toasts = []\<rparr> \<noteq> Some (js ''b'') \<and>
   handleDeleteConversation None None (js ''b'')
     \<lparr>user = Some (js ''u''),
      messages = [\<lparr>msg_id = js ''1'', msg_role = js ''user'', msg_content = js ''hi'',
                   msg_timestamp = js ''t''\<rparr>],
      currentConversationId = Some (js ''a''),
      conversations = [\<lparr>conv_id = js ''a'', conv_created_at = js ''t'', conv_title = js ''A''\<rparr>,
                       \<lparr>conv_id = js ''b'', conv_created_at = js ''t'', conv_title = js ''B''\<rparr>],
      toasts = []\<rparr> =
     \<lparr>user = Some (js ''u''),
      messages = [\<lparr>msg_id = js ''1'', msg_role = js ''user'', msg_content = js ''hi'',
                   msg_timestamp = js ''t''\<rparr>],
      currentConversationId = Some (js ''a''),
      conversations = [\<lparr>conv_id = js ''a'', conv_created_at = js ''t'', conv_title = js ''A''\<rparr>],
      toasts = [Toast (js ''Success'') (js ''Conversation deleted successfully'') False]\<rparr>"
  using handleDeleteConversation_frame
    [of "\<lparr>user = Some (js ''u''),
      messages = [\<lparr>msg_id = js ''1'', msg_role = js ''user'', msg_content = js ''hi'',
                   msg_timestamp = js ''t''\<rparr>],
      currentConversationId = Some (js ''a''),
      conversations = [\<lparr>conv_id = js ''a'', conv_created_at = js ''t'', conv_title = js ''A''\<rparr>,
                       \<lparr>conv_id = js ''b'', conv_created_at = js ''t'', conv_title = js ''B''\<rparr>],
      toasts = []\<rparr>" "js ''b''" None None]
  by (simp add: handleDeleteConversation_def Let_def js_def)

section \<open>Properties of the matcher\<close>

lemma star_iter_closure:
  assumes refl: "\<And>st. Q st st"
    and trans: "\<And>a b c. Q a b \<Longrightarrow> Q b c \<Longrightarrow> Q a c"
    and step: "\<And>st st'. st' \<in> set (f st) \<Longrightarrow> Q st st'"
  shows "st' \<in> set (star_iter f n st) \<Longrightarrow> Q st st'"
proof (induction n arbitrary: st)
  case 0
  then show ?case by (simp add: refl)
next
  case (Suc n)
  from Suc.prems consider "st' = st"
    | mid where "mid \<in> set (f st)" "st' \<in> set (star_iter f n mid)"
    by (auto split: if_splits)
  then show ?case
  proof cases
    case 1
    then show ?thesis by (simp add: refl)
  next
    case 2
    then show ?thesis using Suc.IH step trans by blast
  qed
qed

lemma rxm_consumes:
  "(c', r) \<in> set (rxm rx (c, s)) \<Longrightarrow> rx_within P rx \<Longrightarrow> \<exists>w. s = w @ r \<and> list_all P w"
proof (induction rx arbitrary: c s c' r)
  case Eps
  then show ?case by simp
next
  case (Cls p)
  then show ?case by (auto split: list.splits if_splits)
next
  case (Seq a b)
  from Seq.prems obtain c1 r1 where 1: "(c1, r1) \<in> set (rxm a (c, s))"
    and 2: "(c', r) \<in> set (rxm b (c1, r1))"
    by auto
  from Seq.IH(1) [OF 1] Seq.prems(2) obtain w1 where "s = w1 @ r1" "list_all P w1" by auto
  moreover from Seq.IH(2) [OF 2] Seq.prems(2) obtain w2 where "r1 = w2 @ r" "list_all P w2" by auto
  ultimately have "s = (w1 @ w2) @ r \<and> list_all P (w1 @ w2)" by simp
  then show ?case by blast
next
  case (Alt a b)
  then show ?case by auto
next
  case (Star a)
  let ?Q = "\<lambda>st st'. \<exists>w. snd st = w @ snd st' \<and> list_all P w"
  have "?Q (c, s) (c', r)"
  proof (rule star_iter_closure [where Q = ?Q and f = "rxm a" and n = "length s"])
    show "?Q st st" for st by simp
    show "?Q x z" if "?Q x y" "?Q y z" for x y z
    proof -
      from that obtain w1 w2 where "snd x = w1 @ snd y" "list_all P w1"
        "snd y = w2 @ snd z" "list_all P w2" by blast
      then have "snd x = (w1 @ w2) @ snd z \<and> list_all P (w1 @ w2)" by simp
      then show ?thesis by blast
    qed
    show "?Q st st'" if "st' \<in> set (rxm a st)" for st st'
      using Star.IH [of "fst st'" "snd st'" "fst st" "snd st"] that Star.prems(2) by simp
    show "(c', r) \<in> set (star_iter (rxm a) (length s) (c, s))"
      using Star.prems(1) by simp
  qed
  then show ?case by simp
next
  case (Grp n a)
  then show ?case by auto
qed

lemma rxm_consumed:
  assumes "(c', r) \<in> set (rxm rx (c, s))" "rx_within P rx"
  shows "list_all P (consumed s r)"
proof -
  from rxm_consumes [OF assms] obtain w where "s = w @ r" "list_all P w" by blast
  then show ?thesis by (simp add: consumed_def)
qed

lemma rxm_capture_within:
  "(c', r) \<in> set (rxm rx (c, s)) \<Longrightarrow> grp_within k P rx \<Longrightarrow>
   cap_within P (c k) \<Longrightarrow> cap_within P (c' k)"
proof (induction rx arbitrary: c s c' r)
  case Eps
  then show ?case by simp
next
  case (Cls p)
  from Cls.prems(1) have "c' = c" by (auto split: list.splits if_splits)
  with Cls.prems(3) show ?case by simp
next
  case (Seq a b)
  from Seq.prems(1) obtain c1 r1 where 1: "(c1, r1) \<in> set (rxm a (c, s))"
    and 2: "(c', r) \<in> set (rxm b (c1, r1))"
    by auto
  from Seq.prems(2) have ga: "grp_within k P a" and gb: "grp_within k P b" by simp_all
  from Seq.IH(1) [OF 1 ga Seq.prems(3)] have "cap_within P (c1 k)" .
  from Seq.IH(2) [OF 2 gb this] show ?case .
next
  case (Alt a b)
  from Alt.prems(2) have ga: "grp_within k P a" and gb: "grp_within k P b" by simp_all
  from Alt.prems(1) have "(c', r) \<in> set (rxm a (c, s)) \<or> (c', r) \<in> set (rxm b (c, s))" by simp
  then show ?case
  proof
    assume "(c', r) \<in> set (rxm a (c, s))"
    from Alt.IH(1) [OF this ga Alt.prems(3)] show ?thesis .
  next
    assume "(c', r) \<in> set (rxm b (c, s))"
    from Alt.IH(2) [OF this gb Alt.prems(3)] show ?thesis .
  qed
next
  case (Star a)
  from Star.prems(2) have ga: "grp_within k P a" by simp
  let ?Q = "\<lambda>st st'. cap_within P (fst st k) \<longrightarrow> cap_within P (fst st' k)"
  have "?Q (c, s) (c', r)"
  proof (rule star_iter_closure [where Q = ?Q and f = "rxm a" and n = "length s"])
    show "?Q st st" for st by simp
    show "?Q x z" if "?Q x y" "?Q y z" for x y z using that by blast
    show "?Q st st'" if "st' \<in> set (rxm a st)" for st st'
    proof
      assume h: "cap_within P (fst st k)"
      from that have "(fst st', snd st') \<in> set (rxm a (fst st, snd st))" by simp
      from Star.IH [OF this ga h] show "cap_within P (fst st' k)" .
    qed
    show "(c', r) \<in> set (star_iter (rxm a) (length s) (c, s))"
      using Star.prems(1) by simp
  qed
  then show ?case using Star.prems(3) by simp
next
  case (Grp n a)
  from Grp.prems(1) obtain c1 where 1: "(c1, r) \<in> set (rxm a (c, s))"
    and 2: "c' = c1(n \<mapsto> take (length s - length r) s)"
    by auto
  from Grp.prems(2) have ga: "grp_within k P a" by simp
  from Grp.IH [OF 1 ga Grp.prems(3)] have 3: "cap_within P (c1 k)" .
  show ?case
  proof (cases "n = k")
    case True
    with Grp.prems(2) have "rx_within P a" by simp
    from rxm_consumed [OF 1 this] show ?thesis using 2 True
      by (simp add: consumed_def cap_within_def)
  next
    case False
    then show ?thesis using 2 3 by simp
  qed
qed

lemma rxm_capture_set:
  "(c', r) \<in> set (rxm rx (c, s)) \<Longrightarrow> must k rx \<or> c k \<noteq> None \<Longrightarrow> c' k \<noteq> None"
proof (induction rx arbitrary: c s c' r)
  case Eps
  then show ?case by simp
next
  case (Cls p)
  then show ?case by (auto split: list.splits if_splits)
next
  case (Seq a b)
  from Seq.prems obtain c1 r1 where 1: "(c1, r1) \<in> set (rxm a (c, s))"
    and 2: "(c', r) \<in> set (rxm b (c1, r1))"
    by auto
  show ?case
  proof (cases "must k a \<or> c k \<noteq> None")
    case True
    from Seq.IH(1) [OF 1 True] have "c1 k \<noteq> None" .
    with Seq.IH(2) [OF 2] show ?thesis by simp
  next
    case False
    with Seq.prems(2) have "must k b" by simp
    with Seq.IH(2) [OF 2] show ?thesis by simp
  qed
next
  case (Alt a b)
  from Alt.prems(1) have "(c', r) \<in> set (rxm a (c, s)) \<or> (c', r) \<in> set (rxm b (c, s))" by simp
  then show ?case using Alt.IH Alt.prems(2) by auto
next
  case (Star a)
  let ?Q = "\<lambda>st st'. fst st k \<noteq> None \<longrightarrow> fst st' k \<noteq> None"
  have "?Q (c, s) (c', r)"
  proof (rule star_iter_closure [where Q = ?Q and f = "rxm a" and n = "length s"])
    show "?Q st st" for st by simp
    show "?Q x z" if "?Q x y" "?Q y z" for x y z using that by blast
    show "?Q st st'" if "st' \<in> set (rxm a st)" for st st'
      using Star.IH [of "fst st'" "snd st'" "fst st" "snd st"] that by simp
    show "(c', r) \<in> set (star_iter (rxm a) (length s) (c, s))"
      using Star.prems(1) by simp
  qed
  then show ?case using Star.prems(2) by simp
next
  case (Grp n a)
  from Grp.prems(1) obtain c1 where 1: "(c1, r) \<in> set (rxm a (c, s))"
    and 2: "c' = c1(n \<mapsto> take (length s - length r) s)"
    by auto
  show ?case
  proof (cases "n = k")
    case True
    then show ?thesis using 2 by simp
  next
    case False
    with Grp.prems(2) have "must k a \<or> c k \<noteq> None" by simp
    from Grp.IH [OF 1 this] show ?thesis using 2 by simp
  qed
qed

lemma rx_exec_match:
  "rx_exec rx s = Some (m0, m) \<Longrightarrow> \<exists>s' r. (m, r) \<in> set (rxm rx (Map.empty, s'))"
proof (induction rx s rule: rx_exec.induct)
  case (1 rx s)
  show ?case
  proof (cases "rxm rx (Map.empty, s)")
    case Nil
    with "1.prems" obtain x xs where s: "s = x # xs" and "rx_exec rx xs = Some (m0, m)"
      by (cases s) (simp_all add: rx_exec.simps [of rx "[]"] rx_exec.simps [of rx "_ # _"])
    with "1.IH" [OF Nil s] show ?thesis by simp
  next
    case (Cons st sts)
    with "1.prems" have "st = (m, snd st)"
      by (cases st) (simp add: rx_exec.simps [of rx s])
    with Cons have "(m, snd st) \<in> set (rxm rx (Map.empty, s))" by simp
    then show ?thesis by blast
  qed
qed

lemma grp_within_Liti: "grp_within k P (Liti s)"
  by (induction s) (simp_all add: Liti_def Chi_def)

lemma grp_within_Alts: "list_all (grp_within k P) rs \<Longrightarrow> grp_within k P (Alts rs)"
  by (induction rs rule: Alts.induct) simp_all

lemma grp_within_Seqs: "list_all (grp_within k P) rs \<Longrightarrow> grp_within k P (Seqs rs)"
  by (induction rs rule: Seqs.induct) simp_all

lemma grp_within_unit: "grp_within k P rx_unit"
  by (simp add: rx_unit_def grp_within_Alts grp_within_Liti)

lemma grp_within_rx_tp: "grp_within 1 isDigit rx_tp"
  by (simp add: rx_tp_def grp_within_Seqs grp_within_Alts grp_within_Liti Plus_def rx_digit_def rx_space_def)

lemma grp_within_rx_line2: "grp_within 4 isDigit rx_line2"
  by (simp add: rx_line2_def grp_within_Seqs grp_within_unit Plus_def Opt_def rx_digit_def rx_space_def Chi_def)

lemma must_rx_line2: "must 1 rx_line2 \<and> must 2 rx_line2"
  by (simp add: rx_line2_def)

lemma rx_exec_group_within:
  assumes "rx_exec rx s = Some (m0, m)" "grp_within k P rx"
  shows "cap_within P (m k)"
proof -
  from rx_exec_match [OF assms(1)] obtain s' r where "(m, r) \<in> set (rxm rx (Map.empty, s'))"
    by blast
  from rxm_capture_within [OF this assms(2)] show ?thesis
    by (simp add: cap_within_def)
qed

lemma rx_exec_group_set:
  assumes "rx_exec rx s = Some (m0, m)" "must k rx"
  shows "m k \<noteq> None"
proof -
  from rx_exec_match [OF assms(1)] obtain s' r where "(m, r) \<in> set (rxm rx (Map.empty, s'))"
    by blast
  from rxm_capture_set [OF this] assms(2) show ?thesis
    by blast
qed

section \<open>Properties of the prescription parser\<close>

lemma digit_not_space: "isDigit x \<Longrightarrow> \<not> isWhiteSpace x"
  by (auto simp: isDigit_def isWhiteSpace_def)

lemma parseInt10_digits:
  assumes "list_all isDigit w"
  shows "parseInt10 w =
           (if w = [] then NaN
            else case to_double (dec w) of None \<Rightarrow> PosInfinity | Some v \<Rightarrow> Num (int v))"
proof (cases w)
  case Nil
  then show ?thesis by (simp add: parseInt10_def)
next
  case (Cons x xs)
  with assms have x: "isDigit x" and xs: "list_all isDigit xs" by simp_all
  from x have "\<not> isWhiteSpace x" by (rule digit_not_space)
  moreover from x have "x \<noteq> 43" "x \<noteq> 45" by (auto simp: isDigit_def)
  moreover from xs have "\<forall>y\<in>set xs. isDigit y" by (simp add: list_all_iff)
  ultimately show ?thesis using Cons x
    by (simp add: parseInt10_def Let_def takeWhile_eq_all_conv [THEN iffD2]
          split: option.split)
qed

lemma ge1_or1_digits: "list_all isDigit w \<Longrightarrow> ge1 (or1 (parseInt10 w))"
proof (cases "w = []")
  case True
  then show ?thesis by (simp add: parseInt10_def or1_def ge1_def)
next
  case False
  assume "list_all isDigit w"
  from parseInt10_digits [OF this] False
  have p: "parseInt10 w =
             (case to_double (dec w) of None \<Rightarrow> PosInfinity | Some v \<Rightarrow> Num (int v))"
    by simp
  show ?thesis
  proof (cases "to_double (dec w)")
    case None
    with p show ?thesis by (simp add: or1_def ge1_def)
  next
    case (Some v)
    with p show ?thesis by (cases "v = 0") (simp_all add: or1_def ge1_def)
  qed
qed

lemma parseInt10_undefined: "parseInt10 (js ''undefined'') = NaN"
  by (simp add: parseInt10_def js_def isWhiteSpace_def isDigit_def Let_def)

lemma ge1_or1_group: "cap_within isDigit (m k) \<Longrightarrow> ge1 (or1 (parseInt10 (capture m k)))"
proof (cases "m k")
  case None
  then have "capture m k = js ''undefined''" by (simp add: capture_def)
  then show ?thesis by (simp add: parseInt10_undefined or1_def ge1_def)
next
  case (Some w)
  assume "cap_within isDigit (m k)"
  with Some have "list_all isDigit w" by (simp add: cap_within_def)
  then have "ge1 (or1 (parseInt10 w))" by (rule ge1_or1_digits)
  with Some show ?thesis by (simp add: capture_def)
qed

text \<open>
  The frequency the first loop computes after the statement of line 45 is at least 1 as
  well, for it is 1, 2, 3 or comes from group 1 of its pattern, which holds digits only.
\<close>

lemma frequency_ge1: "ge1 (frequency line)"
proof (cases "rx_exec rx_tp line")
  case None
  then show ?thesis by (simp add: frequency_def ge1_def)
next
  case (Some p)
  obtain m0 tp where p: "p = (m0, tp)" by (cases p)
  with Some have "cap_within isDigit (tp 1)"
    using rx_exec_group_within [OF _ grp_within_rx_tp] by blast
  then show ?thesis using Some p by (simp add: frequency_def ge1_or1_group)
qed

lemma parse_line_meds: "parse_line lc st line = Inr st' \<Longrightarrow> meds st' = meds st"
  by (auto simp: parse_line_def freqMatch_def Let_def split: if_splits)

lemma parse_line_error: "parse_line lc st line = Inl e \<Longrightarrow> e = SyntaxError"
  by (auto simp: parse_line_def freqMatch_def Let_def split: if_splits)

lemma first_loop_meds: "first_loop lc st ls = Inr st' \<Longrightarrow> meds st' = meds st"
proof (induction ls arbitrary: st)
  case Nil
  then show ?case by simp
next
  case (Cons line ls)
  from Cons.prems obtain st1 where 1: "parse_line lc st line = Inr st1"
    and 2: "first_loop lc st1 ls = Inr st'"
    by (auto split: sum.splits)
  from Cons.IH [OF 2] parse_line_meds [OF 1] show ?case by simp
qed

lemma first_loop_error: "first_loop lc st ls = Inl e \<Longrightarrow> e = SyntaxError"
proof (induction ls arbitrary: st)
  case Nil
  then show ?case by simp
next
  case (Cons line ls)
  show ?case
  proof (cases "parse_line lc st line")
    case (Inl e')
    with Cons.prems have "e = e'" by simp
    with parse_line_error [OF Inl] show ?thesis by simp
  next
    case (Inr st1)
    with Cons.prems have "first_loop lc st1 ls = Inl e" by simp
    then show ?thesis by (rule Cons.IH)
  qed
qed

lemma second_loop_ok:
  "meds_ok ms \<Longrightarrow> \<exists>ms'. second_loop ms ls = Inr ms' \<and> meds_ok ms'"
proof (induction ls arbitrary: ms)
  case Nil
  then show ?case by simp
next
  case (Cons line ls)
  show ?case
  proof (cases "rx_exec rx_line2 line")
    case None
    with Cons.IH [OF Cons.prems] show ?thesis by simp
  next
    case (Some p)
    obtain m0 m where p: "p = (m0, m)" by (cases p)
    from Some p have ex: "rx_exec rx_line2 line = Some (m0, m)" by simp
    from must_rx_line2 have "m 1 \<noteq> None" "m 2 \<noteq> None"
      using rx_exec_group_set [OF ex] by blast+
    then obtain g1 g2 where g: "m 1 = Some g1" "m 2 = Some g2" by blast
    from rx_exec_group_within [OF ex grp_within_rx_line2]
    have "ge1 (or1 (parseInt10 (capture m 4)))" by (rule ge1_or1_group)
    with Cons.prems
    have "meds_ok (ms @ [\<lparr>name = trim g1, dose = Some (trim g2),
                           timesPerDay = or1 (parseInt10 (capture m 4))\<rparr>])"
      by (simp add: meds_ok_def)
    from Cons.IH [OF this] show ?thesis using ex g by simp
  qed
qed

text \<open>
  C9. A call of \<open>simpleParsePrescription\<close> that does not return throws a \<open>SyntaxError\<close>
  (always, in an engine that reports the ill-formed literal of line 45 when it parses the
  script; in an engine that reports it on first use, when a line reaches that statement);
  the \<open>TypeError\<close> of the second loop never arises. Every medicine in the list of a call
  that returns has a frequency of at least 1: such a list is made by the second loop,
  whose group 4 is one digit, read by \<open>parseInt\<close> and replaced by 1 when it is 0.
\<close>

theorem timesPerDay_ge1:
  "(\<forall>e. simpleParsePrescription engine lc text = Inl e \<longrightarrow> e = SyntaxError) \<and>
   (\<forall>r. simpleParsePrescription engine lc text = Inr r \<longrightarrow>
        (\<forall>m \<in> set (meds r). ge1 (timesPerDay m)))"
proof (cases engine)
  case AtParse
  then show ?thesis by (simp add: simpleParsePrescription_def)
next
  case AtFirstUse
  let ?lines = "filter truthy (map trim (rx_split rx_newline text))"
  let ?init = "\<lparr>patientName = None, prescribedDate = None, meds = []\<rparr>"
  show ?thesis
  proof (cases "first_loop lc ?init ?lines")
    case (Inl e)
    from first_loop_error [OF Inl] Inl AtFirstUse show ?thesis
      by (simp add: simpleParsePrescription_def Let_def)
  next
    case (Inr st)
    from first_loop_meds [OF Inr] have m: "meds st = []" by simp
    have "meds_ok []" by (simp add: meds_ok_def)
    from second_loop_ok [OF this] obtain ms where ms: "second_loop [] ?lines = Inr ms"
      "meds_ok ms" by blast
    with Inr m AtFirstUse
    have "simpleParsePrescription engine lc text = Inr (st\<lparr>meds := ms\<rparr>)"
      by (simp add: simpleParsePrescription_def Let_def)
    with ms(2) show ?thesis by (simp add: meds_ok_def list_all_iff)
  qed
qed

text \<open>
  A text that returns in an engine that reports the literal on first use: its only line
  is taken by the name branch, the first loop finds no medicine, and the second loop reads
  a medicine whose frequency digit is 0.
\<close>

lemma name_line_split: "rx_split rx_newline
     [78, 97, 109, 101, 58, 32, 80, 32, 53, 109, 103, 32, 48, 120] =
     [[78, 97, 109, 101, 58, 32, 80, 32, 53, 109, 103, 32, 48, 120]]"
  by (simp add: rx_split_def rx_newline_def Opt_def Chr_def)

lemma name_line_trim: "trim
     [78, 97, 109, 101, 58, 32, 80, 32, 53, 109, 103, 32, 48, 120] =
     [78, 97, 109, 101, 58, 32, 80, 32, 53, 109, 103, 32, 48, 120]"
  by (simp add: trim_def isWhiteSpace_def)

lemma name_line_lower: "ascii_lower
     [78, 97, 109, 101, 58, 32, 80, 32, 53, 109, 103, 32, 48, 120] = [110, 97, 109, 101, 58, 32, 112, 32, 53, 109, 103, 32, 48, 120]"
  by (simp add: ascii_lower_def)

lemma name_line_after_colon: "after_colon
     [78, 97, 109, 101, 58, 32, 80, 32, 53, 109, 103, 32, 48, 120] = [80, 32, 53, 109, 103, 32, 48, 120]"
  by (simp add: after_colon_def js_def trim_def isWhiteSpace_def)

lemma name_line_first_loop: "parse_line ascii_lower \<lparr>patientName = None, prescribedDate = None, meds = []\<rparr>
     [78, 97, 109, 101, 58, 32, 80, 32, 53, 109, 103, 32, 48, 120] =
   Inr \<lparr>patientName = Some [80, 32, 53, 109, 103, 32, 48, 120], prescribedDate = None, meds = []\<rparr>"
  by (simp add: parse_line_def Let_def name_line_lower name_line_after_colon
      startsWith_def js_def truthy_opt_def)

lemma name_line_match: "rx_exec rx_line2
     [78, 97, 109, 101, 58, 32, 80, 32, 53, 109, 103, 32, 48, 120] =
   Some ([32, 80, 32, 53, 109, 103, 32, 48, 120],
         [1 \<mapsto> [32, 80], 3 \<mapsto> [109, 103], 2 \<mapsto> [53, 109, 103], 4 \<mapsto> [48]])"
  by (simp add: rx_exec.simps rx_line2_def rx_unit_def Plus_def Opt_def rx_digit_def
      rx_space_def isDigit_def
      isLetter_def isWhiteSpace_def Liti_def Chi_def canon_def consumed_def)

lemma parseInt10_zero: "parseInt10 [48] = Num 0"
  by (simp add: parseInt10_def isWhiteSpace_def isDigit_def dec_def to_double_def Let_def)

lemma name_line_trims: "trim [32, 80] = [80] \<and> trim [53, 109, 103] = [53, 109, 103]"
  by (simp add: trim_def isWhiteSpace_def)

lemma name_line_parsed: "simpleParsePrescription AtFirstUse ascii_lower
     [78, 97, 109, 101, 58, 32, 80, 32, 53, 109, 103, 32, 48, 120] =
   Inr \<lparr>patientName = Some [80, 32, 53, 109, 103, 32, 48, 120], prescribedDate = None,
        meds = [\<lparr>name = [80], dose = Some [53, 109, 103], timesPerDay = Num 1\<rparr>]\<rparr>"
  by (simp add: simpleParsePrescription_def Let_def name_line_split name_line_trim truthy_def
      name_line_first_loop name_line_match parseInt10_zero name_line_trims capture_def or1_def)

theorem timesPerDay_ge1_witness:
  "simpleParsePrescription AtFirstUse ascii_lower (js ''Name: P 5mg 0x'') =
     Inr \<lparr>patientName = Some (js ''P 5mg 0x''), prescribedDate = None,
          meds = [\<lparr>name = js ''P'', dose = Some (js ''5mg''), timesPerDay = Num 1\<rparr>]\<rparr> \<and>
   list_all (\<lambda>m. ge1 (timesPerDay m))
     [\<lparr>name = js ''P'', dose = Some (js ''5mg''), timesPerDay = Num 1\<rparr>]"
proof -
  have e: "simpleParsePrescription AtFirstUse ascii_lower (js ''Name: P 5mg 0x'') =
     Inr \<lparr>patientName = Some (js ''P 5mg 0x''), prescribedDate = None,
          meds = [\<lparr>name = js ''P'', dose = Some (js ''5mg''), timesPerDay = Num 1\<rparr>]\<rparr>"
    using name_line_parsed by (simp add: js_def)
  from timesPerDay_ge1 [of AtFirstUse ascii_lower "js ''Name: P 5mg 0x''"] e
  show ?thesis by (simp add: list_all_iff)
qed

text \<open>
  A text that throws in the same engine: the line \<open>0x\<close> is neither a name nor a date and
  reaches the statement of line 45.
\<close>

lemma zero_x_dates: "rx_exec rx_iso [48, 120] = None \<and> rx_exec rx_slash [48, 120] = None"
  by (simp add: rx_exec.simps rx_iso_def rx_slash_def Range_def Opt_def rx_digit_def isDigit_def
      Chr_def numeral_eq_Suc)

lemma zero_x_throws: "simpleParsePrescription AtFirstUse ascii_lower (js ''0x'') = Inl SyntaxError"
proof -
  have 1: "rx_split rx_newline [48, 120] = [[48, 120]]"
    by (simp add: rx_split_def rx_newline_def Opt_def Chr_def)
  have 2: "trim [48, 120] = [48, 120]"
    by (simp add: trim_def isWhiteSpace_def)
  have 3: "ascii_lower [48, 120] = [48, 120]"
    by (simp add: ascii_lower_def)
  have "parse_line ascii_lower \<lparr>patientName = None, prescribedDate = None, meds = []\<rparr>
          [48, 120] = Inl SyntaxError"
    by (simp add: parse_line_def Let_def 3 startsWith_def js_def truthy_opt_def rx_test_def
        zero_x_dates freqMatch_def)
  then show ?thesis
    by (simp add: simpleParsePrescription_def Let_def js_def 1 2 truthy_def)
qed

section \<open>Properties of the similarity index\<close>


























section \<open>Properties of the Decision Engine\<close>

lemma clamp_severity_range: "1 \<le> clamp_severity x \<and> clamp_severity x \<le> 10"
  by (simp add: clamp_severity_def)

text \<open>
  C1. A non-empty symptom set always yields a Decision, whichever artifacts are loaded,
  whether the encoding succeeds, and whatever the classifiers return. Its severity score
  is never the indeterminate marker: it is an integer from 1 to 10, the rounded and
  clamped output of the severity classifier, or the rounded and clamped estimate of the
  knowledge base when the classifier gives none. Its emergency flag is never the
  indeterminate marker: it is a boolean, the probability of the emergency classifier
  against the cutoff, or the estimate of the knowledge base when the classifier gives none.
\<close>

theorem decision_ranges:
  "symptoms \<noteq> [] \<Longrightarrow>
   \<exists>d s p b q.
      decide encode k arts kb symptoms = Inr d \<and>
      severity_score d = Determined s p \<and> 1 \<le> s \<and> s \<le> 10 \<and>
      s = clamp_severity (case predict (severity_clf arts) (encode symptoms) of
                            Some x \<Rightarrow> x
                          | None \<Rightarrow> kb_severity kb symptoms) \<and>
      emergency_flag d = Determined b q \<and>
      b = (case predict (emergency_clf arts) (encode symptoms) of
             Some x \<Rightarrow> cutoff \<le> x
           | None \<Rightarrow> kb_emergency kb symptoms)"
proof -
  assume ne: "symptoms \<noteq> []"
  let ?ms = "predict (severity_clf arts) (encode symptoms)"
  let ?me = "predict (emergency_clf arts) (encode symptoms)"
  let ?sev = "resolve (map_option clamp_severity ?ms)
                (Some (clamp_severity (kb_severity kb symptoms)))"
  let ?emg = "resolve (map_option (\<lambda>p. cutoff \<le> p) ?me) (Some (kb_emergency kb symptoms))"
  let ?s = "clamp_severity (case ?ms of Some x \<Rightarrow> x | None \<Rightarrow> kb_severity kb symptoms)"
  let ?b = "case ?me of Some x \<Rightarrow> cutoff \<le> x | None \<Rightarrow> kb_emergency kb symptoms"
  from ne obtain d where d: "decide encode k arts kb symptoms = Inr d"
    and sev: "severity_score d = ?sev" and emg: "emergency_flag d = ?emg"
    by (simp add: decide_def Let_def)
  have 1: "\<exists>p. ?sev = Determined ?s p"
    by (cases ?ms) (simp_all add: resolve_def)
  have 2: "\<exists>q. ?emg = Determined ?b q"
    by (cases ?me) (simp_all add: resolve_def)
  have 3: "1 \<le> ?s \<and> ?s \<le> 10" by (rule clamp_severity_range)
  from 1 obtain p where p: "?sev = Determined ?s p" ..
  from 2 obtain q where q: "?emg = Determined ?b q" ..
  from d sev emg p q 3 show ?thesis by auto
qed

lemma round_example: "round (73 / 5 :: real) = 15"
  by (simp add: round_def)

theorem decision_ranges_witness:
  "[''fever''] \<noteq> [] \<and>
   decide unit_encoder 5 wild_artifacts cautious_kb [''fever''] =
     Inr \<lparr>predicted_disease = Indeterminate, disease_confidence = 0,
          severity_score = Determined 10 Model, emergency_flag = Determined True Fallback,
          similar_symptoms = [], similar_diseases = [], surfaced = []\<rparr>"
proof -
  have "decide unit_encoder 5 wild_artifacts cautious_kb [''fever''] =
     Inr \<lparr>predicted_disease = Indeterminate, disease_confidence = 0,
          severity_score = Determined 10 Model, emergency_flag = Determined True Fallback,
          similar_symptoms = [], similar_diseases = [], surfaced = []\<rparr>"
    using round_example
    by (simp add: decide_def Let_def unit_encoder_def wild_artifacts_def cautious_kb_def
        predict_def resolve_def clamp_severity_def lookup_def)
  with decision_ranges [of "[''fever'']" unit_encoder 5 wild_artifacts cautious_kb]
  show ?thesis by simp
qed

section \<open>Properties of the training pipeline\<close>

lemma training_set_empty_iff:
  "training_set adapter t rows = [] \<longleftrightarrow>
   list_all (\<lambda>r. \<not> has_label t r) (load_records adapter rows)"
  by (auto simp: training_set_def filter_empty_conv list_all_iff)

lemma train_target_DataError:
  "DataError t \<in> set (fst (train_target adapter t' fit rows)) \<longleftrightarrow>
   t = t' \<and> training_set adapter t' rows = []"
  by (auto simp: train_target_def load_target_def split: option.splits)

lemma train_target_success:
  "training_set adapter t rows \<noteq> [] \<Longrightarrow> fit (training_set adapter t rows) = Some m \<Longrightarrow>
   train_target adapter t fit rows = ([], Some m)"
  by (simp add: train_target_def load_target_def)

lemma train_target_empty:
  "training_set adapter t rows = [] \<Longrightarrow> train_target adapter t fit rows = ([DataError t], None)"
  by (simp add: train_target_def load_target_def)

text \<open>
  C3. Loading for a target either fails, with \<open>DataError\<close> for that target, and then no
  loaded record has the label of the target; or it returns the training set, which is
  then not empty and holds, once each, the loaded records that have the label. A rebuild
  reports \<open>DataError\<close> for a target exactly when no loaded record has its label. When no
  loaded record has an emergency label, while there are records for the disease and the
  severity classifier on which their learners succeed, then \<open>DataError\<close> for the emergency
  classifier is the only report of the rebuild, the disease and the severity slot hold the
  models fitted on their training sets, and the emergency slot is empty.
\<close>

theorem corpus_loader_DataError:
  "(case load_target adapter t rows of
      Inl e \<Rightarrow> e = DataError t \<and> list_all (\<lambda>r. \<not> has_label t r) (load_records adapter rows)
    | Inr recs \<Rightarrow> recs \<noteq> [] \<and> distinct recs \<and>
        set recs = {r \<in> set (load_records adapter rows). has_label t r}) \<and>
   (DataError t \<in> set (fst (rebuild_all tr adapter rows version)) \<longleftrightarrow>
      list_all (\<lambda>r. \<not> has_label t r) (load_records adapter rows)) \<and>
   (list_all (\<lambda>r. emergency_label r = None) (load_records adapter rows) \<and>
    training_set adapter Disease rows \<noteq> [] \<and>
    fit_disease tr (training_set adapter Disease rows) = Some md \<and>
    training_set adapter Severity rows \<noteq> [] \<and>
    fit_severity tr (training_set adapter Severity rows) = Some ms \<longrightarrow>
      fst (rebuild_all tr adapter rows version) = [DataError Emergency] \<and>
      disease_slot (snd (rebuild_all tr adapter rows version)) = Some (version, md) \<and>
      severity_slot (snd (rebuild_all tr adapter rows version)) = Some (version, ms) \<and>
      emergency_slot (snd (rebuild_all tr adapter rows version)) = None)"
proof -
  have 1: "case load_target adapter t rows of
      Inl e \<Rightarrow> e = DataError t \<and> list_all (\<lambda>r. \<not> has_label t r) (load_records adapter rows)
    | Inr recs \<Rightarrow> recs \<noteq> [] \<and> distinct recs \<and>
        set recs = {r \<in> set (load_records adapter rows). has_label t r}"
  proof (cases "training_set adapter t rows = []")
    case True
    then show ?thesis by (simp add: load_target_def training_set_empty_iff [symmetric])
  next
    case False
    then show ?thesis by (simp add: load_target_def) (simp add: training_set_def)
  qed
  have 2: "DataError t \<in> set (fst (rebuild_all tr adapter rows version)) \<longleftrightarrow>
      list_all (\<lambda>r. \<not> has_label t r) (load_records adapter rows)"
    by (cases t) (simp_all add: rebuild_all_def Let_def train_target_DataError
        training_set_empty_iff)
  have 3: "fst (rebuild_all tr adapter rows version) = [DataError Emergency] \<and>
      disease_slot (snd (rebuild_all tr adapter rows version)) = Some (version, md) \<and>
      severity_slot (snd (rebuild_all tr adapter rows version)) = Some (version, ms) \<and>
      emergency_slot (snd (rebuild_all tr adapter rows version)) = None"
    if e: "list_all (\<lambda>r. emergency_label r = None) (load_records adapter rows)"
      and d: "training_set adapter Disease rows \<noteq> []"
        "fit_disease tr (training_set adapter Disease rows) = Some md"
      and s: "training_set adapter Severity rows \<noteq> []"
        "fit_severity tr (training_set adapter Severity rows) = Some ms"
  proof -
    from e have "training_set adapter Emergency rows = []"
      by (simp add: training_set_empty_iff has_label_def)
    then have te: "train_target adapter Emergency (fit_emergency tr) rows =
        ([DataError Emergency], None)"
      by (rule train_target_empty)
    from d have td: "train_target adapter Disease (fit_disease tr) rows = ([], Some md)"
      by (rule train_target_success)
    from s have ts: "train_target adapter Severity (fit_severity tr) rows = ([], Some ms)"
      by (rule train_target_success)
    from te td ts show ?thesis by (simp add: rebuild_all_def Let_def)
  qed
  from 1 2 3 show ?thesis by blast
qed

lemma flu_records: "load_records Some flu_corpus = flu_corpus"
  by (simp add: load_records_def flu_corpus_def List.map_filter_def)

lemma flu_disease_set: "training_set Some Disease flu_corpus = flu_corpus"
  by (simp add: training_set_def flu_records) (simp add: flu_corpus_def has_label_def)

lemma flu_severity_set: "training_set Some Severity flu_corpus = flu_corpus"
  by (simp add: training_set_def flu_records) (simp add: flu_corpus_def has_label_def)

lemma flu_fit_disease:
  "fit_disease label_trainers flu_corpus = Some (\<lambda>v. Some (''Flu'', 1))"
  by (simp add: label_trainers_def flu_corpus_def List.map_filter_def)

lemma flu_fit_severity:
  "fit_severity label_trainers flu_corpus = Some (\<lambda>v. Some 4)"
  by (simp add: label_trainers_def flu_corpus_def List.map_filter_def)

theorem corpus_loader_DataError_witness:
  "list_all (\<lambda>r. emergency_label r = None) (load_records Some flu_corpus) \<and>
   training_set Some Disease flu_corpus \<noteq> [] \<and>
   fit_disease label_trainers (training_set Some Disease flu_corpus) =
     Some (\<lambda>v. Some (''Flu'', 1)) \<and>
   training_set Some Severity flu_corpus \<noteq> [] \<and>
   fit_severity label_trainers (training_set Some Severity flu_corpus) = Some (\<lambda>v. Some 4) \<and>
   fst (rebuild_all label_trainers Some flu_corpus 1) = [DataError Emergency] \<and>
   disease_slot (snd (rebuild_all label_trainers Some flu_corpus 1)) =
     Some (1, \<lambda>v. Some (''Flu'', 1)) \<and>
   severity_slot (snd (rebuild_all label_trainers Some flu_corpus 1)) = Some (1, \<lambda>v. Some 4) \<and>
   emergency_slot (snd (rebuild_all label_trainers Some flu_corpus 1)) = None"
proof -
  have e: "list_all (\<lambda>r. emergency_label r = None) (load_records Some flu_corpus)"
    by (simp add: flu_records) (simp add: flu_corpus_def)
  have n: "flu_corpus \<noteq> []" by (simp add: flu_corpus_def)
  have d: "training_set Some Disease flu_corpus \<noteq> []"
    unfolding flu_disease_set by (rule n)
  have s: "training_set Some Severity flu_corpus \<noteq> []"
    unfolding flu_severity_set by (rule n)
  have fd: "fit_disease label_trainers (training_set Some Disease flu_corpus) =
      Some (\<lambda>v. Some (''Flu'', 1))"
    by (simp only: flu_disease_set flu_fit_disease)
  have fs: "fit_severity label_trainers (training_set Some Severity flu_corpus) =
      Some (\<lambda>v. Some 4)"
    by (simp only: flu_severity_set flu_fit_severity)
  note T = corpus_loader_DataError
         [where adapter = Some and t = Emergency and rows = flu_corpus and tr = label_trainers
            and version = 1 and md = "\<lambda>v. Some (''Flu'', 1)" and ms = "\<lambda>v. Some 4"]
  from T e d fd s fs
  have r: "fst (rebuild_all label_trainers Some flu_corpus 1) = [DataError Emergency]"
    "disease_slot (snd (rebuild_all label_trainers Some flu_corpus 1)) =
       Some (1, \<lambda>v. Some (''Flu'', 1))"
    "severity_slot (snd (rebuild_all label_trainers Some flu_corpus 1)) = Some (1, \<lambda>v. Some 4)"
    "emergency_slot (snd (rebuild_all label_trainers Some flu_corpus 1)) = None"
    by blast+
  from e d fd s fs r show ?thesis by blast
qed

end
